theory Spec2Isabelle
  imports Main "HOL-Library.Sublist"
begin

section \<open>JavaScript values as the handlers see them\<close>

text \<open>
  The tool servers receive JSON: the argument mapping of a tool call is typed
  \<open>Record<string, unknown> | undefined\<close> by the protocol SDK, so a handler may meet any
  JSON value under the key \<open>message\<close>. Numbers are IEEE doubles in the runtime; the
  handlers only test them for falsiness and print them, so the number type is a parameter
  \<open>'n\<close> and the runtime's operations on it are fields of \<open>js_runtime\<close>.
\<close>

datatype 'n jsval =
    JUndefined
  | JNull
  | JBool bool
  | JNum 'n
  | JStr string
  | JArr "'n jsval list"
  | JObj "(string \<times> 'n jsval) list"

record 'n js_runtime =
  num_falsy :: "'n \<Rightarrow> bool"              \<comment> \<open>\<open>+0\<close>, \<open>-0\<close> and \<open>NaN\<close>\<close>
  num_to_string :: "'n \<Rightarrow> string"         \<comment> \<open>\<open>Number.prototype.toString\<close>\<close>
  num_to_fixed :: "nat \<Rightarrow> 'n \<Rightarrow> string"   \<comment> \<open>\<open>Number.prototype.toFixed\<close>\<close>
  parseFloat :: "string \<Rightarrow> 'n"
  parseInt :: "string \<Rightarrow> 'n"
  encodeURIComponent :: "string \<Rightarrow> string + string"
    \<comment> \<open>\<open>Inl\<close> is the message of the \<open>URIError\<close> thrown on a lone surrogate\<close>
  to_primitive_error :: string
    \<comment> \<open>the message of the engine's \<open>TypeError\<close> for an object with no primitive value\<close>

text \<open>\<open>Array.prototype.join\<close> on strings.\<close>

fun join :: "string \<Rightarrow> string list \<Rightarrow> string" where
  "join sep [] = []"
| "join sep [x] = x"
| "join sep (x # y # ys) = x @ sep @ join sep (y # ys)"

text \<open>
  A thrown value: an \<open>Error\<close> instance (of any subclass) with its message, or a plain data
  value, such as JSON denotes.
\<close>

datatype 'n thrown = JsError string | JsThrown "'n jsval"

text \<open>Truthiness (\<open>ToBoolean\<close>) and the operator \<open>||\<close>.\<close>

fun truthy :: "'n js_runtime \<Rightarrow> 'n jsval \<Rightarrow> bool" where
  "truthy rt JUndefined = False"
| "truthy rt JNull = False"
| "truthy rt (JBool b) = b"
| "truthy rt (JNum n) = (\<not> num_falsy rt n)"
| "truthy rt (JStr s) = (s \<noteq> [])"
| "truthy rt (JArr xs) = True"
| "truthy rt (JObj kvs) = True"

definition js_or :: "'n js_runtime \<Rightarrow> 'n jsval \<Rightarrow> 'n jsval \<Rightarrow> 'n jsval" where
  "js_or rt a b = (if truthy rt a then a else b)"

text \<open>The results of a list of conversions, or the first failure among them.\<close>

fun collect :: "('e + 'a) list \<Rightarrow> 'e + 'a list" where
  "collect [] = Inr []"
| "collect (Inl e # rs) = Inl e"
| "collect (Inr x # rs) = (case collect rs of Inl e \<Rightarrow> Inl e | Inr xs \<Rightarrow> Inr (x # xs))"

text \<open>
  \<open>ToString\<close>, as a template literal and \<open>String(v)\<close> apply it. On a plain object it asks
  for \<open>toString\<close> and then \<open>valueOf\<close>: an own property \<open>toString\<close> of a plain data object
  is never callable, and \<open>valueOf\<close> is then either a non-callable own property or the
  inherited method that returns the object itself, so the conversion throws a
  \<open>TypeError\<close>; without an own \<open>toString\<close> the inherited method answers
  \<open>[object Object]\<close>. An array joins the conversions of its elements, in order, with
  \<open>null\<close> and \<open>undefined\<close> elements giving the empty string.
\<close>

fun to_string :: "'n js_runtime \<Rightarrow> 'n jsval \<Rightarrow> 'n thrown + string" where
  "to_string rt JUndefined = Inr ''undefined''"
| "to_string rt JNull = Inr ''null''"
| "to_string rt (JBool b) = Inr (if b then ''true'' else ''false'')"
| "to_string rt (JNum n) = Inr (num_to_string rt n)"
| "to_string rt (JStr s) = Inr s"
| "to_string rt (JArr xs) =
     (case collect (map (\<lambda>v. case v of JUndefined \<Rightarrow> Inr [] | JNull \<Rightarrow> Inr []
                                | _ \<Rightarrow> to_string rt v) xs) of
        Inl e \<Rightarrow> Inl e
      | Inr shown \<Rightarrow> Inr (join '','' shown))"
| "to_string rt (JObj kvs) =
     (case map_of kvs ''toString'' of
        None \<Rightarrow> Inr ''[object Object]''
      | Some m \<Rightarrow> Inl (JsError (to_primitive_error rt)))"

text \<open>Property read \<open>o.key\<close> on a JSON value that is not \<open>null\<close> or \<open>undefined\<close>, and the
  optional chain \<open>o?.key\<close>.\<close>

fun get_prop :: "'n jsval \<Rightarrow> string \<Rightarrow> 'n jsval" where
  "get_prop (JObj kvs) k = (case map_of kvs k of None \<Rightarrow> JUndefined | Some v \<Rightarrow> v)"
| "get_prop v k = JUndefined"

text \<open>Decimal text of a \<open>bigint\<close> (what a template literal prints for it).\<close>

definition digit_char :: "nat \<Rightarrow> char" where
  "digit_char d = char_of (48 + d)"

fun show_nat :: "nat \<Rightarrow> string" where
  "show_nat n = (if n < 10 then [digit_char n] else show_nat (n div 10) @ [digit_char (n mod 10)])"

declare show_nat.simps [simp del]

definition show_int :: "int \<Rightarrow> string" where
  "show_int i = (if i < 0 then CHR ''-'' # show_nat (nat (- i)) else show_nat (nat i))"

text \<open>\<open>error?.message\<close> for a caught value typed \<open>any\<close>.\<close>

fun error_message :: "'n thrown \<Rightarrow> 'n jsval" where
  "error_message (JsError m) = JStr m"
| "error_message (JsThrown v) = get_prop v ''message''"

section \<open>Protocol data\<close>

record property_schema =
  prop_type :: string
  prop_description :: string

record input_schema =
  schema_type :: string
  properties :: "(string \<times> property_schema) list"
  required :: "string list"

record tool_descriptor =
  name :: string
  description :: string
  inputSchema :: input_schema

record list_tools_result =
  tools :: "tool_descriptor list"

text \<open>\<open>request.params\<close> of a tool call: the tool name and the optional argument mapping.\<close>

record 'n call_tool_request =
  tool_name :: string
  arguments :: "(string \<times> 'n jsval) list option"

record 'n content_block =
  type :: string
  text' :: "'n jsval"  \<comment> \<open>the field \<open>text\<close>\<close>

record 'n call_tool_result =
  content :: "'n content_block list"

text \<open>\<open>request.params.arguments?.message\<close>\<close>

definition arguments_message :: "'n call_tool_request \<Rightarrow> 'n jsval" where
  "arguments_message request =
     (case arguments request of
        None \<Rightarrow> JUndefined
      | Some args \<Rightarrow> get_prop (JObj args) ''message'')"

section \<open>The open echo server\<close>

definition listTools_open :: "'r \<Rightarrow> list_tools_result" where
  "listTools_open request =
     \<lparr>tools = [
        \<lparr>name = ''echo'',
         description = ''Echoes back whatever message you send'',
         inputSchema =
           \<lparr>schema_type = ''object'',
            properties = [(''message'',
               \<lparr>prop_type = ''string'', prop_description = ''Message to echo back''\<rparr>)],
            required = [''message'']\<rparr>\<rparr>]\<rparr>"

definition callTool_open :: "'n js_runtime \<Rightarrow> 'n call_tool_request \<Rightarrow> 'n call_tool_result" where
  "callTool_open rt request =
     \<lparr>content = [
        \<lparr>type = ''text'',
         text' = js_or rt (arguments_message request) (JStr ''No message provided'')\<rparr>]\<rparr>"

section \<open>The token-gated echo server\<close>

text \<open>What the verifier of the token-gate library resolves to.\<close>

record verified =
  signerAddress :: string
  balance :: int

type_synonym 'n verifier = "'n call_tool_request \<Rightarrow> 'n thrown + verified"

definition listTools_gated :: "'r \<Rightarrow> list_tools_result" where
  "listTools_gated request =
     \<lparr>tools = [
        \<lparr>name = ''echo'',
         description = ''Token-gated echo service - requires 1 token to use'',
         inputSchema =
           \<lparr>schema_type = ''object'',
            properties = [
              (''message'',
                 \<lparr>prop_type = ''string'', prop_description = ''Message to echo back''\<rparr>),
              (''strawberry_signature'',
                 \<lparr>prop_type = ''string'',
                  prop_description = ''EIP-712 signature of the request parameters''\<rparr>)],
            required = [''message'', ''strawberry_signature'']\<rparr>\<rparr>]\<rparr>"

text \<open>
  The handler's \<open>try\<close> holds the call of the verifier and the template literal of the
  result, so a failed conversion of the message is caught like a rejection; the template
  literal inside \<open>catch\<close> is not guarded, and a failed conversion there leaves the handler.
\<close>

definition callTool_gated ::
  "'n js_runtime \<Rightarrow> 'n verifier \<Rightarrow> 'n call_tool_request \<Rightarrow> 'n thrown + 'n call_tool_result"
where
  "callTool_gated rt verifier request =
     (let attempt =
            (case verifier request of
               Inl error \<Rightarrow> Inl error
             | Inr v \<Rightarrow>
                 (case to_string rt (js_or rt (arguments_message request)
                                              (JStr ''No message provided'')) of
                    Inl error \<Rightarrow> Inl error
                  | Inr shown \<Rightarrow>
                      Inr \<lparr>content = [
                        \<lparr>type = ''text'',
                         text' = JStr (''Message from '' @ signerAddress v @ '' (balance: ''
                                  @ show_int (balance v) @ ''): '' @ shown)\<rparr>]\<rparr>))
      in case attempt of
           Inr result \<Rightarrow> Inr result
         | Inl error \<Rightarrow>
             (case to_string rt (js_or rt (error_message error) (JStr ''Unknown error'')) of
                Inl e \<Rightarrow> Inl e
              | Inr shown \<Rightarrow> Inl (JsError (''Access denied: '' @ shown))))"

text \<open>
  \<open>createServer\<close> of the gated server. The environment is a partial map; the blockchain
  client constructor and \<open>createTokenGateVerifier\<close> belong to imported libraries and are
  parameters. The function returns what it wrote to the console together with the server,
  or with what \<open>createTokenGateVerifier\<close> threw.
\<close>

record 'n verifier_domain =
  domain_name :: string
  domain_version :: string
  chainId :: 'n

record 'n verifier_options =
  domain :: "'n verifier_domain"
  tokenAddress :: "string option"   \<comment> \<open>\<open>None\<close> is \<open>undefined\<close>\<close>
  minTokenBalance :: int

record 'n server =
  server_name :: string
  server_version :: string
  capabilities :: "string list"
  list_tools_handler :: "(unit \<Rightarrow> list_tools_result) option"
  call_tool_handler :: "('n call_tool_request \<Rightarrow> 'n thrown + 'n call_tool_result) option"

definition new_Server :: "string \<Rightarrow> string \<Rightarrow> string list \<Rightarrow> 'n server" where
  "new_Server n v caps =
     \<lparr>server_name = n, server_version = v, capabilities = caps,
      list_tools_handler = None, call_tool_handler = None\<rparr>"

text \<open>\<open>process.env.KEY || fallback\<close>: an absent or empty variable gives the fallback.\<close>

definition env_or :: "(string \<rightharpoonup> string) \<Rightarrow> string \<Rightarrow> string \<Rightarrow> string" where
  "env_or env key fallback =
     (case env key of None \<Rightarrow> fallback | Some v \<Rightarrow> if v \<noteq> [] then v else fallback)"

definition verifierOptions :: "'n js_runtime \<Rightarrow> (string \<rightharpoonup> string) \<Rightarrow> 'n verifier_options" where
  "verifierOptions rt env =
     \<lparr>domain =
        \<lparr>domain_name = ''Strawberry.fun'',
         domain_version = ''1'',
         chainId = parseInt rt (env_or env ''STRAWBERRY_NETWORK_ID'' ''1'')\<rparr>,
      tokenAddress = env ''LOCALHOST_TOKEN'',
      minTokenBalance = 1\<rparr>"

definition createServer_gated ::
  "'n js_runtime \<Rightarrow> (string \<rightharpoonup> string) \<Rightarrow> (string \<Rightarrow> 'c)
     \<Rightarrow> ('c \<Rightarrow> 'n verifier_options \<Rightarrow> 'n thrown + 'n verifier)
     \<Rightarrow> 'n verifier_options list \<times> ('n thrown + 'n server)"
where
  "createServer_gated rt env createPublicClient createTokenGateVerifier =
     (let server = new_Server ''echo'' ''1.0.0'' [''tools''];
          rpcUrl = env_or env ''RPC_URL'' ''https://sepolia.base.org'';
          client = createPublicClient rpcUrl;
          opts = verifierOptions rt env;
          console = [opts]
      in case createTokenGateVerifier client opts of
           Inl e \<Rightarrow> (console, Inl e)
         | Inr verifier \<Rightarrow>
             (console,
              Inr (server\<lparr>list_tools_handler := Some listTools_gated,
                          call_tool_handler := Some (callTool_gated rt verifier)\<rparr>)))"

definition createServer_open :: "'n js_runtime \<Rightarrow> 'n server" where
  "createServer_open rt =
     (new_Server ''echo'' ''1.0.0'' [''tools''])
       \<lparr>list_tools_handler := Some listTools_open,
        call_tool_handler := Some (\<lambda>request. Inr (callTool_open rt request))\<rparr>"

section \<open>The weather server of the prompt document\<close>

definition NWS_API_BASE :: string where
  "NWS_API_BASE = ''https://api.weather.gov''"

definition USER_AGENT :: string where
  "USER_AGENT = ''weather-app/1.0''"

definition NOMINATIM_API_BASE :: string where
  "NOMINATIM_API_BASE = ''https://nominatim.openstreetmap.org''"

text \<open>A validation issue of the schema library: a path of keys and indices, and a message.\<close>

datatype path_elem = PathKey string | PathIndex nat

record zod_issue =
  path :: "path_elem list"
  message :: string

text \<open>What the handler's \<open>catch\<close> can meet: the schema library's error or anything else.\<close>

datatype 'n caught = ZodError "zod_issue list" | NotZod "'n thrown"

record ('n, 'a) http_response =
  ok :: bool
  status :: nat
  json :: "'n thrown + 'a"   \<comment> \<open>the outcome of \<open>response.json()\<close>, cast to \<open>T\<close>\<close>

record 'n forecast_period =
  period_name :: "string option"
  temperature :: "'n option"
  temperatureUnit :: "string option"
  windSpeed :: "string option"
  windDirection :: "string option"
  shortForecast :: "string option"

record points_properties =
  forecast :: "string option"

record points_response =
  points_properties :: "points_properties option"

record 'n forecast_properties =
  periods :: "'n forecast_period list option"

record 'n forecast_response =
  forecast_properties :: "'n forecast_properties option"

record geocoding_response =
  lat :: string
  lon :: string
  display_name :: string

datatype 'n console_entry = ConsoleError string "'n thrown"

type_synonym ('n, 'a) fetch =
  "string \<Rightarrow> (string \<times> string) list \<Rightarrow> 'n thrown + ('n, 'a) http_response"

text \<open>
  The outside world of the weather server: the two schema parsers and \<open>fetch\<close>, once for
  each type its JSON is cast to.
\<close>

record 'n weather_world =
  ForecastArgumentsSchema_parse ::
    "(string \<times> 'n jsval) list option \<Rightarrow> zod_issue list + ('n \<times> 'n)"
  LocationArgumentsSchema_parse ::
    "(string \<times> 'n jsval) list option \<Rightarrow> zod_issue list + string"
  fetch_points :: "('n, points_response) fetch"
  fetch_forecast :: "('n, 'n forecast_response) fetch"
  fetch_geocoding :: "('n, geocoding_response list) fetch"

definition listTools_weather :: "'r \<Rightarrow> list_tools_result" where
  "listTools_weather request =
     \<lparr>tools = [
        \<lparr>name = ''get-forecast'',
         description = ''Get weather forecast for a location in the US using coordinates'',
         inputSchema =
           \<lparr>schema_type = ''object'',
            properties = [
              (''latitude'',
                 \<lparr>prop_type = ''number'', prop_description = ''Latitude of the location''\<rparr>),
              (''longitude'',
                 \<lparr>prop_type = ''number'', prop_description = ''Longitude of the location''\<rparr>)],
            required = [''latitude'', ''longitude'']\<rparr>\<rparr>,
        \<lparr>name = ''get-forecast-by-name'',
         description = ''Get weather forecast for a location in the US using its name'',
         inputSchema =
           \<lparr>schema_type = ''object'',
            properties = [
              (''location'',
                 \<lparr>prop_type = ''string'',
                  prop_description =
                    ''Name of the location (e.g. 'New York City' or 'Los Angeles, CA')''\<rparr>)],
            required = [''location'']\<rparr>\<rparr>]\<rparr>"

text \<open>The body of \<open>try\<close> in both helpers: the fetch, the status check, the JSON.\<close>

definition fetch_json :: "('n, 'a) fetch \<Rightarrow> string \<Rightarrow> (string \<times> string) list \<Rightarrow> 'n thrown + 'a" where
  "fetch_json fetch url headers =
     (case fetch url headers of
        Inl e \<Rightarrow> Inl e
      | Inr response \<Rightarrow>
          if \<not> ok response
          then Inl (JsError (''HTTP error! status: '' @ show_nat (status response)))
          else json response)"

text \<open>The \<open>headers\<close> of \<open>makeNWSRequest\<close> and of \<open>geocodeLocation\<close>.\<close>

definition nws_headers :: "(string \<times> string) list" where
  "nws_headers = [(''User-Agent'', USER_AGENT), (''Accept'', ''application/geo+json'')]"

definition geocoding_headers :: "(string \<times> string) list" where
  "geocoding_headers = [(''User-Agent'', USER_AGENT)]"

definition makeNWSRequest :: "('n, 'a) fetch \<Rightarrow> string \<Rightarrow> 'a option \<times> 'n console_entry list" where
  "makeNWSRequest fetch url =
     (let headers = nws_headers
      in case fetch_json fetch url headers of
           Inr data \<Rightarrow> (Some data, [])
         | Inl error \<Rightarrow> (None, [ConsoleError ''Error making NWS request:'' error]))"

text \<open>\<open>s || fallback\<close> for an optional string field.\<close>

definition str_or :: "string option \<Rightarrow> string \<Rightarrow> string" where
  "str_or s fallback =
     (case s of None \<Rightarrow> fallback | Some v \<Rightarrow> if v \<noteq> [] then v else fallback)"

definition newline :: string where
  "newline = [CHR 0x0A]"

text \<open>The two characters the source has between the temperature and its unit (UTF-8).\<close>

definition degree_sign :: string where
  "degree_sign = [CHR 0xC3, CHR 0x82, CHR 0xC2, CHR 0xB0]"

definition format_period :: "'n js_runtime \<Rightarrow> 'n forecast_period \<Rightarrow> string" where
  "format_period rt period =
     join newline [
       str_or (period_name period) ''Unknown'' @ '':'',
       ''Temperature: ''
         @ (case temperature period of
              None \<Rightarrow> ''Unknown''
            | Some t \<Rightarrow> if num_falsy rt t then ''Unknown'' else num_to_string rt t)
         @ degree_sign @ str_or (temperatureUnit period) ''F'',
       ''Wind: '' @ str_or (windSpeed period) ''Unknown'' @ '' ''
         @ str_or (windDirection period) [],
       str_or (shortForecast period) ''No forecast available'',
       ''---'']"

text \<open>The \<open>pointsUrl\<close> of \<open>getForecastForCoordinates\<close> and the \<open>url\<close> of \<open>geocodeLocation\<close>
  (for an encoded location).\<close>

definition pointsUrl :: "'n js_runtime \<Rightarrow> 'n \<Rightarrow> 'n \<Rightarrow> string" where
  "pointsUrl rt latitude longitude =
     NWS_API_BASE @ ''/points/'' @ num_to_fixed rt 4 latitude @ '','' @ num_to_fixed rt 4 longitude"

definition geocoding_url :: "string \<Rightarrow> string" where
  "geocoding_url q = NOMINATIM_API_BASE @ ''/search?q='' @ q @ ''&format=json&limit=1''"

definition getForecastForCoordinates ::
  "'n js_runtime \<Rightarrow> 'n weather_world \<Rightarrow> 'n \<Rightarrow> 'n
     \<Rightarrow> 'n call_tool_result \<times> 'n console_entry list"
where
  "getForecastForCoordinates rt w latitude longitude =
     (let (pointsData, log1) =
            makeNWSRequest (fetch_points w) (pointsUrl rt latitude longitude);
          noForecastUrl =
            \<lparr>content = [
               \<lparr>type = ''text'',
                text' = JStr ''Failed to get forecast URL from grid point data''\<rparr>]\<rparr>
      in case pointsData of
           None \<Rightarrow>
             (\<lparr>content = [
                \<lparr>type = ''text'',
                 text' = JStr (''Failed to retrieve grid point data for coordinates: ''
                   @ num_to_string rt latitude @ '', '' @ num_to_string rt longitude
                   @ ''. This location may not be supported by the NWS API (only US locations are supported).'')\<rparr>]\<rparr>,
              log1)
         | Some pd \<Rightarrow>
             (case Option.bind (points_properties pd) forecast of
                None \<Rightarrow> (noForecastUrl, log1)
              | Some forecastUrl \<Rightarrow>
                  if forecastUrl = [] then (noForecastUrl, log1)
                  else
                    (let (forecastData, log2) = makeNWSRequest (fetch_forecast w) forecastUrl
                     in case forecastData of
                          None \<Rightarrow>
                            (\<lparr>content = [
                               \<lparr>type = ''text'',
                                text' = JStr ''Failed to retrieve forecast data''\<rparr>]\<rparr>,
                             log1 @ log2)
                        | Some fd \<Rightarrow>
                            (let ps = (case Option.bind (forecast_properties fd) periods of
                                         None \<Rightarrow> [] | Some xs \<Rightarrow> xs)
                             in if length ps = 0
                                then
                                  (\<lparr>content = [
                                     \<lparr>type = ''text'',
                                      text' = JStr ''No forecast periods available''\<rparr>]\<rparr>,
                                   log1 @ log2)
                                else
                                  (let formattedForecast = map (format_period rt) ps
                                   in (\<lparr>content = [
                                         \<lparr>type = ''text'',
                                          text' = JStr (''Forecast for ''
                                            @ num_to_string rt latitude @ '', ''
                                            @ num_to_string rt longitude @ '':''
                                            @ newline @ newline
                                            @ join newline formattedForecast)\<rparr>]\<rparr>,
                                       log1 @ log2))))))"

text \<open>
  \<open>geocodeLocation\<close> builds its URL before the \<open>try\<close>, so a \<open>URIError\<close> of
  \<open>encodeURIComponent\<close> leaves the function; everything after that is caught.
\<close>

definition geocodeLocation ::
  "'n js_runtime \<Rightarrow> 'n weather_world \<Rightarrow> string
     \<Rightarrow> ('n thrown + geocoding_response option) \<times> 'n console_entry list"
where
  "geocodeLocation rt w location =
     (case encodeURIComponent rt location of
        Inl m \<Rightarrow> (Inl (JsError m), [])
      | Inr q \<Rightarrow>
          (let url = geocoding_url q;
               headers = geocoding_headers
           in case fetch_json (fetch_geocoding w) url headers of
                Inr results \<Rightarrow>
                  (Inr (case results of [] \<Rightarrow> None | r # rs \<Rightarrow> Some r), [])
              | Inl error \<Rightarrow>
                  (Inr None, [ConsoleError ''Error geocoding location:'' error])))"

fun path_elem_string :: "path_elem \<Rightarrow> string" where
  "path_elem_string (PathKey k) = k"
| "path_elem_string (PathIndex i) = show_nat i"

text \<open>The body of the handler's \<open>try\<close>: a result, or what was thrown inside it.\<close>

definition callTool_weather_try ::
  "'n js_runtime \<Rightarrow> 'n weather_world \<Rightarrow> 'n call_tool_request
     \<Rightarrow> ('n caught + 'n call_tool_result) \<times> 'n console_entry list"
where
  "callTool_weather_try rt w request =
     (let name = tool_name request; args = arguments request
      in if name = ''get-forecast'' then
           (case ForecastArgumentsSchema_parse w args of
              Inl issues \<Rightarrow> (Inl (ZodError issues), [])
            | Inr (latitude, longitude) \<Rightarrow>
                (let (forecast, log) = getForecastForCoordinates rt w latitude longitude
                 in (Inr \<lparr>content = content forecast\<rparr>, log)))
         else if name = ''get-forecast-by-name'' then
           (case LocationArgumentsSchema_parse w args of
              Inl issues \<Rightarrow> (Inl (ZodError issues), [])
            | Inr location \<Rightarrow>
                (case geocodeLocation rt w location of
                   (Inl e, log) \<Rightarrow> (Inl (NotZod e), log)
                 | (Inr None, log) \<Rightarrow>
                     (Inr \<lparr>content = [
                        \<lparr>type = ''text'',
                         text' = JStr (''Could not find coordinates for location: ''
                                        @ location)\<rparr>]\<rparr>,
                      log)
                 | (Inr (Some geocodingResult), log1) \<Rightarrow>
                     (let latitude = parseFloat rt (lat geocodingResult);
                          longitude = parseFloat rt (lon geocodingResult);
                          (forecast, log2) = getForecastForCoordinates rt w latitude longitude;
                          named =
                            (case content forecast of
                               [] \<Rightarrow> Inr (content forecast)
                             | b # bs \<Rightarrow>
                                 if truthy rt (text' b)
                                 then (case to_string rt (text' b) of
                                         Inl e \<Rightarrow> Inl e
                                       | Inr shown \<Rightarrow>
                                           Inr (b\<lparr>text' := JStr (''Location: ''
                                                  @ display_name geocodingResult
                                                  @ newline @ newline @ shown)\<rparr> # bs))
                                 else Inr (content forecast))
                      in case named of
                           Inl e \<Rightarrow> (Inl (NotZod e), log1 @ log2)
                         | Inr blocks \<Rightarrow> (Inr \<lparr>content = blocks\<rparr>, log1 @ log2))))
         else (Inl (NotZod (JsError (''Unknown tool: '' @ name))), []))"

text \<open>
  The handler: the \<open>try\<close> and its \<open>catch\<close>. \<open>String(error)\<close> in the \<open>catch\<close> is a conversion
  that can itself throw, and nothing guards it.
\<close>

definition callTool_weather ::
  "'n js_runtime \<Rightarrow> 'n weather_world \<Rightarrow> 'n call_tool_request
     \<Rightarrow> ('n thrown + 'n call_tool_result) \<times> 'n console_entry list"
where
  "callTool_weather rt w request =
     (case callTool_weather_try rt w request of
        (Inr result, log) \<Rightarrow> (Inr result, log)
      | (Inl (ZodError issues), log) \<Rightarrow>
          (Inr \<lparr>content = [
             \<lparr>type = ''text'',
              text' = JStr (''Invalid arguments: ''
                @ join '', ''
                    (map (\<lambda>e. join ''.'' (map path_elem_string (path e)) @ '': '' @ message e)
                       issues))\<rparr>]\<rparr>,
           log)
      | (Inl (NotZod error), log) \<Rightarrow>
          (case (case error of JsError m \<Rightarrow> Inr m | JsThrown v \<Rightarrow> to_string rt v) of
             Inl e \<Rightarrow> (Inl e, log)
           | Inr errorMessage \<Rightarrow>
               (Inr \<lparr>content = [
                  \<lparr>type = ''text'', text' = JStr (''Error: '' @ errorMessage)\<rparr>]\<rparr>,
                log)))"

section \<open>A small runtime for evaluating the handlers on concrete requests\<close>

text \<open>
  Its numbers are the integers and \<open>NaN\<close> (\<open>None\<close>); \<open>parseInt\<close> and \<open>parseFloat\<close> read an
  optional sign and the leading decimal digits; \<open>encodeURIComponent\<close> percent-encodes every
  byte outside the unreserved set and, on byte strings, has nothing to reject.
\<close>

definition is_digit :: "char \<Rightarrow> bool" where
  "is_digit c = (48 \<le> (of_char c :: nat) \<and> (of_char c :: nat) \<le> 57)"

definition parse_decimal :: "string \<Rightarrow> int option" where
  "parse_decimal s =
     (let (neg, rest) =
            (case s of
               [] \<Rightarrow> (False, [])
             | c # cs \<Rightarrow>
                 if c = CHR ''-'' then (True, cs)
                 else if c = CHR ''+'' then (False, cs) else (False, s));
          ds = takeWhile is_digit rest;
          n = foldl (\<lambda>a c. 10 * a + (of_char c - 48)) (0::nat) ds
      in if ds = [] then None else Some (if neg then - int n else int n))"

definition hex_char :: "nat \<Rightarrow> char" where
  "hex_char d = (if d < 10 then char_of (48 + d) else char_of (55 + d))"

definition unreserved :: "char \<Rightarrow> bool" where
  "unreserved c =
     (let k = (of_char c :: nat)
      in (48 \<le> k \<and> k \<le> 57) \<or> (65 \<le> k \<and> k \<le> 90) \<or> (97 \<le> k \<and> k \<le> 122)
         \<or> c \<in> set ''-_.!~*'()'')"

definition percent_encode :: "string \<Rightarrow> string" where
  "percent_encode s =
     concat (map (\<lambda>c. if unreserved c then [c]
                       else [CHR ''%'', hex_char (of_char c div 16), hex_char (of_char c mod 16)]) s)"

definition sample_runtime :: "int option js_runtime" where
  "sample_runtime =
     \<lparr>num_falsy = (\<lambda>n. case n of None \<Rightarrow> True | Some i \<Rightarrow> i = 0),
      num_to_string = (\<lambda>n. case n of None \<Rightarrow> ''NaN'' | Some i \<Rightarrow> show_int i),
      num_to_fixed = (\<lambda>d n. case n of
                         None \<Rightarrow> ''NaN''
                       | Some i \<Rightarrow> show_int i @ (if d = 0 then [] else CHR ''.'' # replicate d CHR ''0'')),
      parseFloat = parse_decimal,
      parseInt = parse_decimal,
      encodeURIComponent = (\<lambda>s. Inr (percent_encode s)),
      to_primitive_error = ''Cannot convert object to primitive value''\<rparr>"

section \<open>Vocabulary of the properties\<close>

text \<open>The argument mapping has no field \<open>k\<close>: it is absent, or has no such key.\<close>

definition lacks_field :: "'n call_tool_request \<Rightarrow> string \<Rightarrow> bool" where
  "lacks_field request k =
     (case arguments request of None \<Rightarrow> True | Some args \<Rightarrow> map_of args k = None)"

text \<open>
  The failure of an HTTP call, if it failed: what \<open>fetch\<close> threw, or the error for a status
  that is not a success, or what reading the JSON body threw.
\<close>

definition http_failure ::
  "('n, 'a) fetch \<Rightarrow> string \<Rightarrow> (string \<times> string) list \<Rightarrow> 'n thrown option"
where
  "http_failure fetch url headers =
     (case fetch url headers of
        Inl e \<Rightarrow> Some e
      | Inr response \<Rightarrow>
          if ok response
          then (case json response of Inl e \<Rightarrow> Some e | Inr body \<Rightarrow> None)
          else Some (JsError (''HTTP error! status: '' @ show_nat (status response))))"

text \<open>A result of exactly one content block, tagged \<open>text\<close>.\<close>

definition single_text_block :: "'n call_tool_result \<Rightarrow> bool" where
  "single_text_block r = (case content r of [b] \<Rightarrow> type b = ''text'' | _ \<Rightarrow> False)"

subsection \<open>Concrete requests, verifiers and worlds\<close>

definition sample_signer :: verified where
  "sample_signer = \<lparr>signerAddress = ''0x52908400098527886E0F7030069857D2E4169EE7'', balance = 12\<rparr>"

definition accepting_verifier :: "int option verifier" where
  "accepting_verifier request = Inr sample_signer"

definition rejecting_verifier :: "int option verifier" where
  "rejecting_verifier request = Inl (JsError ''Insufficient token balance'')"

definition hello_request :: "int option call_tool_request" where
  "hello_request = \<lparr>tool_name = ''echo'', arguments = Some [(''message'', JStr ''hello'')]\<rparr>"

text \<open>A verifier that throws a plain object whose \<open>message\<close> is an object with an own
  \<open>toString\<close>.\<close>

definition opaque_verifier :: "int option verifier" where
  "opaque_verifier request =
     Inl (JsThrown (JObj [(''message'', JObj [(''toString'', JStr ''x'')])]))"

text \<open>A world in which every HTTP call is answered with status 503, and one in which the
  network is down.\<close>

definition unavailable :: "('n, 'a) fetch" where
  "unavailable url headers = Inr \<lparr>ok = False, status = 503, json = Inl (JsError ''no body'')\<rparr>"

definition offline :: "('n, 'a) fetch" where
  "offline url headers = Inl (JsError ''fetch failed'')"

text \<open>A call answered with status 200 and a body that is not JSON.\<close>

definition garbled :: "('n, 'a) fetch" where
  "garbled url headers =
     Inr \<lparr>ok = True, status = 200, json = Inl (JsError ''Unexpected token < in JSON'')\<rparr>"

definition unavailable_world :: "int option weather_world" where
  "unavailable_world =
     \<lparr>ForecastArgumentsSchema_parse = (\<lambda>args. Inr (Some 40, Some (- 74))),
      LocationArgumentsSchema_parse = (\<lambda>args. Inr ''New York''),
      fetch_points = unavailable,
      fetch_forecast = unavailable,
      fetch_geocoding = offline\<rparr>"

text \<open>A world in which the grid point is found and the forecast call fails.\<close>

definition half_world :: "int option weather_world" where
  "half_world =
     unavailable_world
       \<lparr>fetch_points := (\<lambda>url headers.
          Inr \<lparr>ok = True, status = 200,
               json = Inr \<lparr>points_properties =
                        Some \<lparr>forecast = Some ''https://api.weather.gov/gridpoints/OKX/33,35/forecast''\<rparr>\<rparr>\<rparr>)\<rparr>"

definition no_arguments_request :: "int option call_tool_request" where
  "no_arguments_request = \<lparr>tool_name = ''echo'', arguments = Some []\<rparr>"

definition empty_request :: "int option call_tool_request" where
  "empty_request = \<lparr>tool_name = ''echo'', arguments = Some [(''message'', JStr '''')]\<rparr>"

definition by_name_request :: "int option call_tool_request" where
  "by_name_request =
     \<lparr>tool_name = ''get-forecast-by-name'', arguments = Some [(''location'', JStr ''New York'')]\<rparr>"

section \<open>Properties\<close>

subsection \<open>Reading the message argument\<close>

lemma lacks_field_message:
  "lacks_field request ''message'' \<Longrightarrow> arguments_message request = JUndefined"
  by (simp add: lacks_field_def arguments_message_def split: option.splits)

lemma present_field_message:
  "arguments request = Some args \<Longrightarrow> map_of args ''message'' = Some v
     \<Longrightarrow> arguments_message request = v"
  by (simp add: arguments_message_def)

lemma show_int_12: "show_int 12 = ''12''"
  by code_simp

lemma show_nat_503: "show_nat 503 = ''503''"
  by code_simp

lemma encode_new_york: "encodeURIComponent sample_runtime ''New York'' = Inr ''New%20York''"
  by code_simp

subsection \<open>Rejection by the verifier\<close>

text \<open>
  C1 (as amended). Gated variant: when the verifier throws, the call-tool handler catches
  the failure and throws in its turn; it returns no result. For a caught \<open>Error\<close> the
  thrown value is a new \<open>Error\<close> whose message is \<open>Access denied: \<close> followed by the caught
  error's own message, or by \<open>Unknown error\<close> when that message is empty. For any other
  caught value the text after \<open>Access denied: \<close> is the conversion to a string of its
  \<open>message\<close> property, or \<open>Unknown error\<close> when that is missing or falsy; when the
  conversion fails, its \<open>TypeError\<close> leaves the handler instead. The outcome is built from
  the caught value alone: two requests on which the verifier throws the same value get the
  same outcome, whatever their arguments are.
\<close>

theorem gated_rejection_rethrows:
  assumes "verifier request = Inl error"
  shows "callTool_gated rt verifier request
           = (case to_string rt (js_or rt (error_message error) (JStr ''Unknown error'')) of
                Inr shown \<Rightarrow> Inl (JsError (''Access denied: '' @ shown))
              | Inl e \<Rightarrow> Inl e)
         \<and> (\<forall>m. error = JsError m \<longrightarrow>
               callTool_gated rt verifier request
                 = Inl (JsError (''Access denied: ''
                          @ (if m = [] then ''Unknown error'' else m))))
         \<and> (\<forall>result. callTool_gated rt verifier request \<noteq> Inr result)
         \<and> (\<forall>request'. verifier request' = Inl error \<longrightarrow>
               callTool_gated rt verifier request' = callTool_gated rt verifier request)"
  using assms by (auto simp: callTool_gated_def js_or_def split: sum.splits)

theorem gated_rejection_rethrows_witness:
  "rejecting_verifier hello_request = Inl (JsError ''Insufficient token balance'')
   \<and> callTool_gated sample_runtime rejecting_verifier hello_request
       = Inl (JsError ''Access denied: Insufficient token balance'')
   \<and> opaque_verifier hello_request
       = Inl (JsThrown (JObj [(''message'', JObj [(''toString'', JStr ''x'')])]))
   \<and> callTool_gated sample_runtime opaque_verifier hello_request
       = Inl (JsError ''Cannot convert object to primitive value'')"
  using gated_rejection_rethrows [of rejecting_verifier hello_request
          "JsError ''Insufficient token balance''" sample_runtime]
        gated_rejection_rethrows [of opaque_verifier hello_request
          "JsThrown (JObj [(''message'', JObj [(''toString'', JStr ''x'')])])" sample_runtime]
  by (simp add: rejecting_verifier_def opaque_verifier_def js_or_def sample_runtime_def)

text \<open>
  The claim as first stated fails: with a verifier that rejects for an insufficient
  balance, the handler's outcome is a thrown error, and its text carries the verifier's own
  message.
\<close>

theorem gated_rejection_leaks_counterexample:
  "callTool_gated sample_runtime rejecting_verifier hello_request
     = Inl (JsError ''Access denied: Insufficient token balance'')
   \<and> sublist ''Insufficient token balance'' ''Access denied: Insufficient token balance''"
  by (simp add: callTool_gated_def rejecting_verifier_def js_or_def sublist_code(3))

subsection \<open>Tool names the server does not declare\<close>

text \<open>
  C2 (as amended). The open echo handler does not look at the tool name: it gives the same
  echo result under every name, and it cannot throw. The weather handler answers a tool
  name that is not among its declared ones with a single text block
  \<open>Error: Unknown tool: <name>\<close>, logging nothing and throwing nothing.
\<close>

theorem unknown_tool_name:
  "callTool_open rt (request\<lparr>tool_name := n\<rparr>) = callTool_open rt request
   \<and> (tool_name request' \<notin> set (map name (tools (listTools_weather u))) \<longrightarrow>
        callTool_weather rt w request'
          = (Inr \<lparr>content = [\<lparr>type = ''text'',
                           text' = JStr (''Error: Unknown tool: '' @ tool_name request')\<rparr>]\<rparr>, []))"
  by (simp add: callTool_open_def arguments_message_def listTools_weather_def
        callTool_weather_def callTool_weather_try_def)

theorem unknown_tool_name_witness:
  "''translate'' \<notin> set (map name (tools (listTools_weather ())))
   \<and> callTool_weather sample_runtime unavailable_world (hello_request\<lparr>tool_name := ''translate''\<rparr>)
       = (Inr \<lparr>content = [\<lparr>type = ''text'', text' = JStr ''Error: Unknown tool: translate''\<rparr>]\<rparr>, [])"
  using unknown_tool_name [where rt = sample_runtime and w = unavailable_world and u = "()"
          and request' = "hello_request\<lparr>tool_name := ''translate''\<rparr>"]
  by (simp add: listTools_weather_def hello_request_def)

text \<open>
  The claim as first stated fails on the open echo server: \<open>translate\<close> is not a declared
  tool, and the handler answers with the ordinary echo of the message.
\<close>

theorem open_echo_unknown_tool_counterexample:
  "''translate'' \<notin> set (map name (tools (listTools_open ())))
   \<and> callTool_open sample_runtime (hello_request\<lparr>tool_name := ''translate''\<rparr>)
       = \<lparr>content = [\<lparr>type = ''text'', text' = JStr ''hello''\<rparr>]\<rparr>"
  by (simp add: listTools_open_def callTool_open_def hello_request_def arguments_message_def
        js_or_def)

subsection \<open>Listing the tools\<close>

text \<open>
  C4. The list-tools handlers are constant functions of their request, with no state to
  read or write: the open server always lists the one tool \<open>echo\<close> with required fields
  \<open>message\<close>; the gated server always lists the one tool \<open>echo\<close> with required fields
  \<open>message\<close> and \<open>strawberry_signature\<close>.
\<close>

theorem list_tools_static:
  "map name (tools (listTools_open r)) = [''echo'']
   \<and> map (required \<circ> inputSchema) (tools (listTools_open r)) = [[''message'']]
   \<and> listTools_open r = listTools_open r'
   \<and> map name (tools (listTools_gated q)) = [''echo'']
   \<and> map (required \<circ> inputSchema) (tools (listTools_gated q))
       = [[''message'', ''strawberry_signature'']]
   \<and> listTools_gated q = listTools_gated q'
   \<and> list_tools_handler (createServer_open rt) = Some listTools_open"
  by (simp add: listTools_open_def listTools_gated_def createServer_open_def new_Server_def)

subsection \<open>The text of a verified echo\<close>

text \<open>
  C5. Gated variant: when the verifier succeeds with a signer address and a balance, and
  the request's arguments carry a message string, the handler returns one text block whose
  text contains the signer address, the balance in decimal, and the message.
\<close>

theorem gated_success_text:
  assumes "verifier request = Inr v"
    and "arguments request = Some args"
    and "map_of args ''message'' = Some (JStr m)"
  shows "\<exists>t. callTool_gated rt verifier request
               = Inr \<lparr>content = [\<lparr>type = ''text'', text' = JStr t\<rparr>]\<rparr>
             \<and> sublist (signerAddress v) t
             \<and> sublist (show_int (balance v)) t
             \<and> sublist m t"
proof -
  let ?shown = "if m = [] then ''No message provided'' else m"
  let ?head = "''Message from '' @ signerAddress v @ '' (balance: '' @ show_int (balance v)
                 @ ''): ''"
  have msg: "arguments_message request = JStr m"
    using assms(2,3) by (rule present_field_message)
  have res: "callTool_gated rt verifier request
               = Inr \<lparr>content = [\<lparr>type = ''text'', text' = JStr (?head @ ?shown)\<rparr>]\<rparr>"
    using assms(1) msg by (simp add: callTool_gated_def js_or_def)
  have m: "sublist m (?head @ ?shown)"
    using sublist_append_leftI [of m ?head] by (cases "m = []") simp_all
  have s: "sublist (signerAddress v) (?head @ ?shown)"
    using sublist_appendI [of "signerAddress v" "''Message from ''"] by simp
  have b: "sublist (show_int (balance v)) (?head @ ?shown)"
    using sublist_appendI [of "show_int (balance v)"
            "''Message from '' @ signerAddress v @ '' (balance: ''"]
    by simp
  from res s b m show ?thesis by blast
qed

theorem gated_success_text_witness:
  "accepting_verifier hello_request = Inr sample_signer
   \<and> arguments hello_request = Some [(''message'', JStr ''hello'')]
   \<and> map_of [(''message'', JStr ''hello'' :: int option jsval)] ''message'' = Some (JStr ''hello'')
   \<and> (\<exists>t. callTool_gated sample_runtime accepting_verifier hello_request
               = Inr \<lparr>content = [\<lparr>type = ''text'', text' = JStr t\<rparr>]\<rparr>
             \<and> sublist ''0x52908400098527886E0F7030069857D2E4169EE7'' t
             \<and> sublist (show_int 12) t
             \<and> sublist ''hello'' t)"
  using gated_success_text [of accepting_verifier hello_request sample_signer
          "[(''message'', JStr ''hello'')]" "''hello''" sample_runtime]
  by (simp add: accepting_verifier_def hello_request_def sample_signer_def)

subsection \<open>The default message\<close>

text \<open>
  C6 (as amended). When the argument mapping has no message field, the open echo handler
  returns one text block whose text equals the default string \<open>No message provided\<close>; the
  gated handler, under a succeeding verifier, returns one text block whose text is
  \<open>Message from <signer> (balance: <balance>): \<close> followed by that default string.
\<close>

theorem echo_default_when_absent:
  assumes "lacks_field request ''message''"
  shows "callTool_open rt request
           = \<lparr>content = [\<lparr>type = ''text'', text' = JStr ''No message provided''\<rparr>]\<rparr>
         \<and> (\<forall>v. verifier request = Inr v \<longrightarrow>
               callTool_gated rt verifier request
                 = Inr \<lparr>content = [\<lparr>type = ''text'',
                         text' = JStr (''Message from '' @ signerAddress v @ '' (balance: ''
                                   @ show_int (balance v) @ ''): No message provided'')\<rparr>]\<rparr>)"
  using lacks_field_message [OF assms]
  by (simp add: callTool_open_def callTool_gated_def js_or_def)

theorem echo_default_when_absent_witness:
  "lacks_field no_arguments_request ''message''
   \<and> callTool_open sample_runtime no_arguments_request
       = \<lparr>content = [\<lparr>type = ''text'', text' = JStr ''No message provided''\<rparr>]\<rparr>
   \<and> accepting_verifier no_arguments_request = Inr sample_signer
   \<and> callTool_gated sample_runtime accepting_verifier no_arguments_request
       = Inr \<lparr>content = [\<lparr>type = ''text'',
               text' = JStr (''Message from '' @ signerAddress sample_signer @ '' (balance: ''
                         @ show_int (balance sample_signer) @ ''): No message provided'')\<rparr>]\<rparr>"
  using echo_default_when_absent [where request = no_arguments_request
          and rt = sample_runtime and verifier = accepting_verifier]
  by (simp add: lacks_field_def accepting_verifier_def no_arguments_request_def)

text \<open>
  The claim as first stated fails on the gated server: with no message field and a
  succeeding verifier, the text is the default string behind the signer prefix, not the
  default string itself.
\<close>

theorem gated_absent_message_counterexample:
  "lacks_field no_arguments_request ''message''
   \<and> callTool_gated sample_runtime accepting_verifier no_arguments_request
       = Inr \<lparr>content = [\<lparr>type = ''text'',
               text' = JStr ''Message from 0x52908400098527886E0F7030069857D2E4169EE7 (balance: 12): No message provided''\<rparr>]\<rparr>
   \<and> callTool_gated sample_runtime accepting_verifier no_arguments_request
       \<noteq> Inr \<lparr>content = [\<lparr>type = ''text'', text' = JStr ''No message provided''\<rparr>]\<rparr>"
  by (simp add: no_arguments_request_def lacks_field_def callTool_gated_def accepting_verifier_def sample_signer_def
        arguments_message_def js_or_def show_int_12)

text \<open>
  C9 (as amended). When the message field is present and bound to a falsy value, the empty
  string among them, the default is substituted as it is for an absent field: the open
  echo handler's text equals \<open>No message provided\<close>, and the gated handler's text, under a
  succeeding verifier, is \<open>Message from <signer> (balance: <balance>): \<close> followed by
  \<open>No message provided\<close>.
\<close>

theorem echo_default_when_falsy:
  assumes "arguments request = Some args"
    and "map_of args ''message'' = Some m"
    and "\<not> truthy rt m"
  shows "callTool_open rt request
           = \<lparr>content = [\<lparr>type = ''text'', text' = JStr ''No message provided''\<rparr>]\<rparr>
         \<and> (\<forall>v. verifier request = Inr v \<longrightarrow>
               callTool_gated rt verifier request
                 = Inr \<lparr>content = [\<lparr>type = ''text'',
                         text' = JStr (''Message from '' @ signerAddress v @ '' (balance: ''
                                   @ show_int (balance v) @ ''): No message provided'')\<rparr>]\<rparr>)
         \<and> \<not> truthy rt (JStr '''')"
  using present_field_message [OF assms(1,2)] assms(3)
  by (simp add: callTool_open_def callTool_gated_def js_or_def)

theorem echo_default_when_falsy_witness:
  "arguments empty_request = Some [(''message'', JStr '''')]
   \<and> map_of [(''message'', JStr '''' :: int option jsval)] ''message'' = Some (JStr '''')
   \<and> \<not> truthy sample_runtime (JStr '''')
   \<and> callTool_open sample_runtime empty_request
       = \<lparr>content = [\<lparr>type = ''text'', text' = JStr ''No message provided''\<rparr>]\<rparr>
   \<and> accepting_verifier empty_request = Inr sample_signer
   \<and> callTool_gated sample_runtime accepting_verifier empty_request
       = Inr \<lparr>content = [\<lparr>type = ''text'',
               text' = JStr (''Message from '' @ signerAddress sample_signer @ '' (balance: ''
                         @ show_int (balance sample_signer) @ ''): No message provided'')\<rparr>]\<rparr>"
  using echo_default_when_falsy [where request = empty_request and rt = sample_runtime
          and args = "[(''message'', JStr '''')]" and m = "JStr ''''"
          and verifier = accepting_verifier]
  by (simp add: empty_request_def accepting_verifier_def)

text \<open>
  The claim as first stated fails on the gated server: with the message bound to the empty
  string and a succeeding verifier, the text is the default string behind the signer
  prefix, not the default string itself.
\<close>

theorem gated_empty_message_counterexample:
  "callTool_gated sample_runtime accepting_verifier empty_request
       = Inr \<lparr>content = [\<lparr>type = ''text'',
               text' = JStr ''Message from 0x52908400098527886E0F7030069857D2E4169EE7 (balance: 12): No message provided''\<rparr>]\<rparr>
   \<and> callTool_gated sample_runtime accepting_verifier empty_request
       \<noteq> Inr \<lparr>content = [\<lparr>type = ''text'', text' = JStr ''No message provided''\<rparr>]\<rparr>"
  by (simp add: empty_request_def callTool_gated_def accepting_verifier_def sample_signer_def
        arguments_message_def js_or_def show_int_12)

subsection \<open>The shape of every result\<close>

lemma getForecast_content:
  "\<exists>s. content (fst (getForecastForCoordinates rt w la lo)) = [\<lparr>type = ''text'', text' = JStr s\<rparr>]"
  by (simp add: getForecastForCoordinates_def Let_def
        split: prod.splits option.splits)

lemma getForecast_single:
  "single_text_block (fst (getForecastForCoordinates rt w la lo))"
  using getForecast_content [of rt w la lo] by (auto simp: single_text_block_def)

lemma getForecast_block:
  "getForecastForCoordinates rt w la lo = (f, l)
     \<Longrightarrow> \<exists>s. f = \<lparr>content = [\<lparr>type = ''text'', text' = JStr s\<rparr>]\<rparr>"
  using getForecast_content [of rt w la lo] by (cases f) simp

lemma weather_try_single:
  assumes "callTool_weather_try rt w request = (Inr r, l)"
  shows "single_text_block r"
proof (cases "tool_name request = ''get-forecast''")
  case True
  with assms show ?thesis
    by (auto simp: callTool_weather_try_def single_text_block_def
          split: sum.splits prod.splits dest!: getForecast_block)
next
  case False
  note nf = this
  show ?thesis
  proof (cases "tool_name request = ''get-forecast-by-name''")
    case True
    with nf assms show ?thesis
      by (auto simp: callTool_weather_try_def single_text_block_def Let_def
            split: sum.splits prod.splits option.splits if_splits dest!: getForecast_block)
  next
    case False
    with nf assms show ?thesis
      by (simp add: callTool_weather_try_def)
  qed
qed

text \<open>Whatever is thrown inside the handler's \<open>try\<close> is an \<open>Error\<close> instance.\<close>

lemma weather_try_throws_errors:
  assumes "callTool_weather_try rt w request = (Inl (NotZod e), l)"
  shows "\<exists>m. e = JsError m"
proof (cases "tool_name request = ''get-forecast''")
  case True
  with assms show ?thesis
    by (auto simp: callTool_weather_try_def split: sum.splits prod.splits)
next
  case False
  note nf = this
  show ?thesis
  proof (cases "tool_name request = ''get-forecast-by-name''")
    case True
    with nf assms show ?thesis
      by (auto simp: callTool_weather_try_def geocodeLocation_def Let_def
            split: sum.splits prod.splits option.splits if_splits list.splits
            dest!: getForecast_block)
  next
    case False
    with nf assms show ?thesis
      by (auto simp: callTool_weather_try_def)
  qed
qed

lemma weather_single:
  "\<exists>r. fst (callTool_weather rt w request) = Inr r \<and> single_text_block r"
proof (cases "callTool_weather_try rt w request")
  case (Pair res l)
  show ?thesis
  proof (cases res)
    case (Inr r)
    with Pair weather_try_single [of rt w request r l] show ?thesis
      by (simp add: callTool_weather_def)
  next
    case (Inl c)
    show ?thesis
    proof (cases c)
      case (ZodError issues)
      with Pair Inl show ?thesis
        by (simp add: callTool_weather_def single_text_block_def)
    next
      case (NotZod e)
      with Pair Inl weather_try_throws_errors [of rt w request e l]
      show ?thesis
        by (auto simp: callTool_weather_def single_text_block_def)
    qed
  qed
qed

text \<open>
  C10. Every result a call-tool handler returns has exactly one content block, tagged
  \<open>text\<close>: the open echo handler's, the gated echo handler's whenever it does not throw, the
  weather handler's on every branch (and it always returns), and that of
  \<open>getForecastForCoordinates\<close>.
\<close>

theorem single_text_block_results:
  "single_text_block (callTool_open rt request)
   \<and> (\<forall>r. callTool_gated rt verifier request = Inr r \<longrightarrow> single_text_block r)
   \<and> (\<exists>r. fst (callTool_weather rt w request) = Inr r \<and> single_text_block r)
   \<and> single_text_block (fst (getForecastForCoordinates rt w latitude longitude))"
proof (intro conjI allI impI)
  show "single_text_block (callTool_open rt request)"
    by (simp add: callTool_open_def single_text_block_def)
  show "single_text_block r" if "callTool_gated rt verifier request = Inr r" for r
    using that by (auto simp: callTool_gated_def single_text_block_def split: sum.splits)
  show "\<exists>r. fst (callTool_weather rt w request) = Inr r \<and> single_text_block r"
    by (rule weather_single)
  show "single_text_block (fst (getForecastForCoordinates rt w latitude longitude))"
    by (rule getForecast_single)
qed

theorem single_text_block_results_witness:
  "(\<exists>r. callTool_gated sample_runtime accepting_verifier hello_request = Inr r
        \<and> single_text_block r)
   \<and> single_text_block (callTool_open sample_runtime hello_request)
   \<and> (\<exists>r. fst (callTool_weather sample_runtime unavailable_world hello_request) = Inr r
          \<and> single_text_block r)"
  using single_text_block_results [of sample_runtime hello_request accepting_verifier
          unavailable_world]
  by (simp add: callTool_gated_def accepting_verifier_def hello_request_def
        arguments_message_def js_or_def)

subsection \<open>Construction of the gated server\<close>

text \<open>
  \<open>createServer\<close> of the gated server has no check of its own: it logs the options, and
  its outcome is that of the library's \<open>createTokenGateVerifier\<close> on them, with the token
  address as the environment has it.
\<close>

lemma createServer_gated_outcome:
  "createServer_gated rt env createPublicClient createTokenGateVerifier
     = ([verifierOptions rt env],
        case createTokenGateVerifier
               (createPublicClient (env_or env ''RPC_URL'' ''https://sepolia.base.org''))
               (verifierOptions rt env) of
          Inl e \<Rightarrow> Inl e
        | Inr verifier \<Rightarrow>
            Inr \<lparr>server_name = ''echo'', server_version = ''1.0.0'', capabilities = [''tools''],
                 list_tools_handler = Some listTools_gated,
                 call_tool_handler = Some (callTool_gated rt verifier)\<rparr>)"
  by (simp add: createServer_gated_def new_Server_def Let_def split: sum.splits)

lemma verifierOptions_tokenAddress:
  "tokenAddress (verifierOptions rt env) = env ''LOCALHOST_TOKEN''"
  by (simp add: verifierOptions_def)

subsection \<open>Failed HTTP calls of the weather server\<close>

lemma failed_fetch_json:
  "http_failure fetch url headers = Some e \<Longrightarrow> fetch_json fetch url headers = Inl e"
  by (cases "fetch url headers")
     (auto simp: http_failure_def fetch_json_def split: if_splits sum.splits)

lemma makeNWSRequest_failed:
  assumes "http_failure fetch url nws_headers = Some e"
  shows "makeNWSRequest fetch url = (None, [ConsoleError ''Error making NWS request:'' e])"
  using failed_fetch_json [OF assms] by (simp add: makeNWSRequest_def)

lemma geocodeLocation_failed:
  assumes "encodeURIComponent rt location = Inr q"
    and "http_failure (fetch_geocoding w) (geocoding_url q) geocoding_headers = Some e"
  shows "geocodeLocation rt w location
           = (Inr None, [ConsoleError ''Error geocoding location:'' e])"
  using failed_fetch_json [OF assms(2)] assms(1) by (simp add: geocodeLocation_def)

lemma points_failed:
  assumes "http_failure (fetch_points w) (pointsUrl rt la lo) nws_headers = Some e"
  shows "getForecastForCoordinates rt w la lo
           = (\<lparr>content = [
                \<lparr>type = ''text'',
                 text' = JStr (''Failed to retrieve grid point data for coordinates: ''
                   @ num_to_string rt la @ '', '' @ num_to_string rt lo
                   @ ''. This location may not be supported by the NWS API (only US locations are supported).'')\<rparr>]\<rparr>,
              [ConsoleError ''Error making NWS request:'' e])"
  using makeNWSRequest_failed [OF assms] by (simp add: getForecastForCoordinates_def)

lemma forecast_failed:
  assumes "fetch_points w (pointsUrl rt la lo) nws_headers
             = Inr \<lparr>ok = True, status = st, json = Inr pd\<rparr>"
    and "Option.bind (points_properties pd) forecast = Some forecastUrl"
    and "forecastUrl \<noteq> []"
    and "http_failure (fetch_forecast w) forecastUrl nws_headers = Some e"
  shows "getForecastForCoordinates rt w la lo
           = (\<lparr>content = [\<lparr>type = ''text'', text' = JStr ''Failed to retrieve forecast data''\<rparr>]\<rparr>,
              [ConsoleError ''Error making NWS request:'' e])"
proof -
  have "makeNWSRequest (fetch_points w) (pointsUrl rt la lo) = (Some pd, [])"
    using assms(1) by (simp add: makeNWSRequest_def fetch_json_def)
  moreover have
    "makeNWSRequest (fetch_forecast w) forecastUrl
       = (None, [ConsoleError ''Error making NWS request:'' e])"
    using assms(4) by (rule makeNWSRequest_failed)
  ultimately show ?thesis
    using assms(2,3) by (simp add: getForecastForCoordinates_def)
qed

lemma by_name_geocoding_failed:
  assumes "tool_name request = ''get-forecast-by-name''"
    and "LocationArgumentsSchema_parse w (arguments request) = Inr location"
    and "encodeURIComponent rt location = Inr q"
    and "http_failure (fetch_geocoding w) (geocoding_url q) geocoding_headers = Some e"
  shows "callTool_weather rt w request
           = (Inr \<lparr>content = [
                \<lparr>type = ''text'',
                 text' = JStr (''Could not find coordinates for location: '' @ location)\<rparr>]\<rparr>,
              [ConsoleError ''Error geocoding location:'' e])"
  using geocodeLocation_failed [OF assms(3,4)] assms(1,2)
  by (simp add: callTool_weather_def callTool_weather_try_def)

text \<open>
  C7. Weather example: when an HTTP call fails, \<open>makeNWSRequest\<close> and \<open>geocodeLocation\<close> log
  that failure (one \<open>console.error\<close> entry holding the caught error) and return \<open>null\<close>
  instead of throwing, and the caller turns the \<open>null\<close> into a text block:
  \<open>getForecastForCoordinates\<close> for the grid point call and for the forecast call, the
  call-tool handler for the geocoding call.
\<close>

theorem failed_http_calls_become_text:
  "(http_failure fetch url nws_headers = Some e \<longrightarrow>
      makeNWSRequest fetch url = (None, [ConsoleError ''Error making NWS request:'' e]))
   \<and> (encodeURIComponent rt location = Inr q
        \<and> http_failure (fetch_geocoding w) (geocoding_url q) geocoding_headers = Some g \<longrightarrow>
      geocodeLocation rt w location
        = (Inr None, [ConsoleError ''Error geocoding location:'' g]))
   \<and> (http_failure (fetch_points w) (pointsUrl rt latitude longitude) nws_headers = Some p \<longrightarrow>
      getForecastForCoordinates rt w latitude longitude
        = (\<lparr>content = [
             \<lparr>type = ''text'',
              text' = JStr (''Failed to retrieve grid point data for coordinates: ''
                @ num_to_string rt latitude @ '', '' @ num_to_string rt longitude
                @ ''. This location may not be supported by the NWS API (only US locations are supported).'')\<rparr>]\<rparr>,
           [ConsoleError ''Error making NWS request:'' p]))
   \<and> (fetch_points w (pointsUrl rt latitude longitude) nws_headers
          = Inr \<lparr>ok = True, status = st, json = Inr pd\<rparr>
        \<and> Option.bind (points_properties pd) forecast = Some forecastUrl
        \<and> forecastUrl \<noteq> []
        \<and> http_failure (fetch_forecast w) forecastUrl nws_headers = Some f \<longrightarrow>
      getForecastForCoordinates rt w latitude longitude
        = (\<lparr>content = [\<lparr>type = ''text'', text' = JStr ''Failed to retrieve forecast data''\<rparr>]\<rparr>,
           [ConsoleError ''Error making NWS request:'' f]))
   \<and> (tool_name request = ''get-forecast-by-name''
        \<and> LocationArgumentsSchema_parse w (arguments request) = Inr location
        \<and> encodeURIComponent rt location = Inr q
        \<and> http_failure (fetch_geocoding w) (geocoding_url q) geocoding_headers = Some g \<longrightarrow>
      callTool_weather rt w request
        = (Inr \<lparr>content = [
             \<lparr>type = ''text'',
              text' = JStr (''Could not find coordinates for location: '' @ location)\<rparr>]\<rparr>,
           [ConsoleError ''Error geocoding location:'' g]))"
proof (intro conjI impI; (elim conjE)?)
  show "makeNWSRequest fetch url = (None, [ConsoleError ''Error making NWS request:'' e])"
    if "http_failure fetch url nws_headers = Some e"
    using that by (rule makeNWSRequest_failed)
qed (erule (1) geocodeLocation_failed, erule points_failed, erule (3) forecast_failed,
     erule (3) by_name_geocoding_failed)

theorem failed_http_calls_become_text_witness:
  "http_failure (garbled :: (int option, points_response) fetch)
      ''https://api.weather.gov/points/0,0'' nws_headers
      = Some (JsError ''Unexpected token < in JSON'')
   \<and> makeNWSRequest (garbled :: (int option, points_response) fetch)
        ''https://api.weather.gov/points/0,0''
        = (None, [ConsoleError ''Error making NWS request:''
                    (JsError ''Unexpected token < in JSON'')])
   \<and> encodeURIComponent sample_runtime ''New York'' = Inr ''New%20York''
   \<and> http_failure (fetch_geocoding unavailable_world) (geocoding_url ''New%20York'')
        geocoding_headers = Some (JsError ''fetch failed'')
   \<and> geocodeLocation sample_runtime unavailable_world ''New York''
        = (Inr None, [ConsoleError ''Error geocoding location:'' (JsError ''fetch failed'')])
   \<and> http_failure (fetch_points unavailable_world)
        (pointsUrl sample_runtime (Some 40) (Some (- 74))) nws_headers
        = Some (JsError ''HTTP error! status: 503'')
   \<and> getForecastForCoordinates sample_runtime unavailable_world (Some 40) (Some (- 74))
        = (\<lparr>content = [
             \<lparr>type = ''text'',
              text' = JStr (''Failed to retrieve grid point data for coordinates: ''
                @ num_to_string sample_runtime (Some 40) @ '', ''
                @ num_to_string sample_runtime (Some (- 74))
                @ ''. This location may not be supported by the NWS API (only US locations are supported).'')\<rparr>]\<rparr>,
           [ConsoleError ''Error making NWS request:'' (JsError ''HTTP error! status: 503'')])
   \<and> fetch_points half_world (pointsUrl sample_runtime (Some 40) (Some (- 74))) nws_headers
        = Inr \<lparr>ok = True, status = 200,
               json = Inr \<lparr>points_properties =
                        Some \<lparr>forecast = Some ''https://api.weather.gov/gridpoints/OKX/33,35/forecast''\<rparr>\<rparr>\<rparr>
   \<and> http_failure (fetch_forecast half_world)
        ''https://api.weather.gov/gridpoints/OKX/33,35/forecast'' nws_headers
        = Some (JsError ''HTTP error! status: 503'')
   \<and> getForecastForCoordinates sample_runtime half_world (Some 40) (Some (- 74))
        = (\<lparr>content = [\<lparr>type = ''text'', text' = JStr ''Failed to retrieve forecast data''\<rparr>]\<rparr>,
           [ConsoleError ''Error making NWS request:'' (JsError ''HTTP error! status: 503'')])
   \<and> tool_name by_name_request = ''get-forecast-by-name''
   \<and> LocationArgumentsSchema_parse unavailable_world (arguments by_name_request) = Inr ''New York''
   \<and> callTool_weather sample_runtime unavailable_world by_name_request
        = (Inr \<lparr>content = [
             \<lparr>type = ''text'',
              text' = JStr (''Could not find coordinates for location: '' @ ''New York'')\<rparr>]\<rparr>,
           [ConsoleError ''Error geocoding location:'' (JsError ''fetch failed'')])"
proof -
  let ?bad = "garbled :: (int option, points_response) fetch"
  let ?u = "''https://api.weather.gov/points/0,0''"
  let ?f = "''https://api.weather.gov/gridpoints/OKX/33,35/forecast''"
  let ?pd = "\<lparr>points_properties = Some \<lparr>forecast = Some ?f\<rparr>\<rparr>"
  let ?e503 = "JsError ''HTTP error! status: 503'' :: int option thrown"
  let ?down = "JsError ''fetch failed'' :: int option thrown"
  let ?json = "JsError ''Unexpected token < in JSON'' :: int option thrown"
  note first = failed_http_calls_become_text [where fetch = ?bad and url = ?u and e = ?json
      and rt = sample_runtime and w = unavailable_world and location = "''New York''"
      and q = "''New%20York''" and g = ?down and latitude = "Some 40"
      and longitude = "Some (- 74)" and p = ?e503 and f = ?e503
      and request = by_name_request and st = 200 and pd = ?pd and forecastUrl = ?f]
  note second = failed_http_calls_become_text [where fetch = ?bad and url = ?u and e = ?json
      and rt = sample_runtime and w = half_world and location = "''New York''"
      and q = "''New%20York''" and g = ?down and latitude = "Some 40"
      and longitude = "Some (- 74)" and p = ?e503 and f = ?e503
      and request = by_name_request and st = 200 and pd = ?pd and forecastUrl = ?f]
  have h1: "http_failure ?bad ?u nws_headers = Some ?json"
    by (simp add: http_failure_def garbled_def)
  have h2: "http_failure (fetch_geocoding unavailable_world) (geocoding_url ''New%20York'')
              geocoding_headers = Some ?down"
    by (simp add: http_failure_def unavailable_world_def offline_def)
  have h3: "http_failure (fetch_points unavailable_world)
              (pointsUrl sample_runtime (Some 40) (Some (- 74))) nws_headers = Some ?e503"
    by (simp add: http_failure_def unavailable_world_def unavailable_def show_nat_503)
  have h4: "fetch_points half_world (pointsUrl sample_runtime (Some 40) (Some (- 74))) nws_headers
              = Inr \<lparr>ok = True, status = 200, json = Inr ?pd\<rparr>"
    by (simp add: half_world_def unavailable_world_def)
  have h5: "http_failure (fetch_forecast half_world) ?f nws_headers = Some ?e503"
    by (simp add: http_failure_def half_world_def unavailable_world_def unavailable_def
          show_nat_503)
  have h6: "tool_name by_name_request = ''get-forecast-by-name''"
    by (simp add: by_name_request_def)
  have h7: "LocationArgumentsSchema_parse unavailable_world (arguments by_name_request)
              = Inr ''New York''"
    by (simp add: unavailable_world_def)
  have h8: "Option.bind (points_properties ?pd) forecast = Some ?f" "?f \<noteq> []"
    by simp_all
  from first h1
  have c1: "makeNWSRequest ?bad ?u = (None, [ConsoleError ''Error making NWS request:'' ?json])"
    by (elim conjE) (erule mp)
  from first encode_new_york h2
  have c2: "geocodeLocation sample_runtime unavailable_world ''New York''
              = (Inr None, [ConsoleError ''Error geocoding location:'' ?down])"
    by blast
  from first h3
  have c3: "getForecastForCoordinates sample_runtime unavailable_world (Some 40) (Some (- 74))
        = (\<lparr>content = [
             \<lparr>type = ''text'',
              text' = JStr (''Failed to retrieve grid point data for coordinates: ''
                @ num_to_string sample_runtime (Some 40) @ '', ''
                @ num_to_string sample_runtime (Some (- 74))
                @ ''. This location may not be supported by the NWS API (only US locations are supported).'')\<rparr>]\<rparr>,
           [ConsoleError ''Error making NWS request:'' ?e503])"
    by blast
  from second h4 h5 h8
  have c4: "getForecastForCoordinates sample_runtime half_world (Some 40) (Some (- 74))
        = (\<lparr>content = [\<lparr>type = ''text'', text' = JStr ''Failed to retrieve forecast data''\<rparr>]\<rparr>,
           [ConsoleError ''Error making NWS request:'' ?e503])"
    by blast
  from first h6 h7 encode_new_york h2
  have c5: "callTool_weather sample_runtime unavailable_world by_name_request
        = (Inr \<lparr>content = [
             \<lparr>type = ''text'',
              text' = JStr (''Could not find coordinates for location: '' @ ''New York'')\<rparr>]\<rparr>,
           [ConsoleError ''Error geocoding location:'' ?down])"
    by blast
  show ?thesis
    by (intro conjI h1 c1 encode_new_york h2 c2 h3 c3 h4 h5 c4 h6 h7 c5)
qed

end
